theory Spec2Isabelle
  imports Main
begin

section \<open>The default module configuration (open-telemetry.constants.ts)\<close>

text \<open>
  The injector classes imported from \<^verbatim>\<open>./trace/injectors\<close> and
  \<^verbatim>\<open>./trace/injectors/exception-filter.injector\<close>. The configuration refers to
  them by class, so each is one constructor.
\<close>

datatype injector =
    DecoratorInjector
  | ScheduleInjector
  | ControllerInjector
  | GuardInjector
  | PipeInjector
  | InterceptorInjector
  | ExceptionFilterInjector
  | TypeormInjector
  | LoggerInjector
  | ProviderInjector
  | MiddlewareInjector

text \<open>
  The objects the configuration is built from. \<^verbatim>\<open>new AsyncLocalStorageContextManager()\<close>
  and \<^verbatim>\<open>new W3CTraceContextPropagator()\<close> take no arguments;
  \<^verbatim>\<open>new CompositePropagator({ propagators: [...] })\<close> holds the list it is given.
\<close>

datatype context_manager = AsyncLocalStorageContextManager

datatype resource_detector = containerDetector | hostDetectorSync | envDetector

datatype text_map_propagator =
    W3CTraceContextPropagator
  | CompositePropagator "text_map_propagator list"

text \<open>
  \<^verbatim>\<open>new Resource({ [key]: value })\<close>: the attributes of a resource, in the order of
  the object literal.
\<close>

datatype resource = Resource "(string \<times> string) list"

text \<open>
  The key constant of the semantic conventions package, by its value.
\<close>

definition SEMRESATTRS_SERVICE_VERSION :: string where
  "SEMRESATTRS_SERVICE_VERSION = ''service.version''"

text \<open>
  A configuration object. A property of a JavaScript object may be absent, so every field
  is an option: the test's call of \<^verbatim>\<open>OpenTelemetryModule.forRoot\<close> passes an object
  with three properties only.
\<close>

record OpenTelemetryModuleConfig =
  serviceName :: "string option"
  autoInjectors :: "injector list option"
  autoDetectResources :: "bool option"
  contextManager :: "context_manager option"
  resource :: "resource option"
  resourceDetectors :: "resource_detector list option"
  textMapPropagator :: "text_map_propagator option"

text \<open>
  \<^verbatim>\<open>version\<close> is read from the \<^verbatim>\<open>package.json\<close> of the working directory when
  the module is loaded; the \<^verbatim>\<open>catch\<close> with an empty body leaves it undefined when the
  file cannot be read or parsed. The file system is outside the model, so the outcome of
  that read is the parameter of \<open>defaultConfig\<close>: \<open>None\<close> is \<^verbatim>\<open>undefined\<close>.

  \<^verbatim>\<open>version ?? 'unknown'\<close> is \<open>nullish\<close>.
\<close>

definition nullish :: "'a option \<Rightarrow> 'a \<Rightarrow> 'a" where
  "nullish v d = (case v of None \<Rightarrow> d | Some x \<Rightarrow> x)"

definition defaultConfig :: "string option \<Rightarrow> OpenTelemetryModuleConfig" where
  "defaultConfig version =
     \<lparr> serviceName = Some ''UNKNOWN'',
       autoInjectors = Some
         [ DecoratorInjector,
           ScheduleInjector,
           ControllerInjector,
           GuardInjector,
           PipeInjector,
           InterceptorInjector,
           ExceptionFilterInjector,
           TypeormInjector,
           LoggerInjector,
           ProviderInjector,
           MiddlewareInjector ],
       autoDetectResources = Some True,
       contextManager = Some AsyncLocalStorageContextManager,
       resource = Some (Resource [(SEMRESATTRS_SERVICE_VERSION, nullish version ''unknown'')]),
       resourceDetectors = Some [containerDetector, hostDetectorSync, envDetector],
       textMapPropagator = Some (CompositePropagator [W3CTraceContextPropagator]) \<rparr>"

section \<open>Connection descriptor to attributes\<close>

text \<open>
  The test \<^verbatim>\<open>typeorm.injector.spec.ts\<close> calls \<^verbatim>\<open>getConnectionAttributes\<close>, exported
  by \<^verbatim>\<open>../injectors\<close>; the function itself is not among the sources. The definitions
  of this section are written from the specification's description of it.
\<close>

text \<open>
  Modelled from the spec: the data-source configuration that \<^verbatim>\<open>getConnectionAttributes\<close>
  (missing from the sources) reads: driver kind, host, port, database name, or connection
  URL. The driver kind is the string of the \<^verbatim>\<open>type\<close> property; every other property
  may be absent.
\<close>

record DataSourceOptions =
  type :: string
  url :: "string option"
  host :: "string option"
  port :: "nat option"
  database :: "string option"

text \<open>
  Modelled from the spec: the canonical attribute set that \<^verbatim>\<open>getConnectionAttributes\<close>
  (missing from the sources) returns: system identifier, namespace (database name),
  server address, server port. A field that cannot be resolved is omitted, so each is an
  option. The test reads them under the keys \<^verbatim>\<open>ATTR_DB_SYSTEM\<close>,
  \<^verbatim>\<open>ATTR_DB_NAMESPACE\<close>, \<^verbatim>\<open>ATTR_SERVER_ADDRESS\<close> and \<^verbatim>\<open>ATTR_SERVER_PORT\<close>.
\<close>

record Attributes =
  db_system :: "string option"
  db_namespace :: "string option"
  server_address :: "string option"
  server_port :: "nat option"

text \<open>
  Modelled from the spec: the static driver-kind-to-system-identifier table (missing from
  the sources), with the entries the specification names: sqlite, postgres (postgresql)
  and mysql. The test adds aurora-postgres (postgresql). An unknown driver kind has no
  entry.
\<close>

definition driver_system_identifier :: "string \<Rightarrow> string option" where
  "driver_system_identifier = map_of
     [ (''sqlite'', ''sqlite''),
       (''postgres'', ''postgresql''),
       (''mysql'', ''mysql''),
       (''aurora-postgres'', ''postgresql'') ]"

text \<open>
  Modelled from the spec: the static driver-kind-to-default-port table (missing from the
  sources), with the entries the specification names: 5432 for postgres, 3306 for mysql.
\<close>

definition driver_default_port :: "string \<Rightarrow> nat option" where
  "driver_default_port = map_of
     [ (''postgres'', 5432),
       (''mysql'', 3306) ]"

text \<open>
  Modelled from the spec: the parsing of a connection URL into address, port and path
  (the specification says only that they are parsed from the URL; the parser the function
  uses is missing from the sources). A URL is read as
  \<^verbatim>\<open>scheme://[userinfo@]hostname[:port][/path][?query][#fragment]\<close>.
  \<open>split_first sep s\<close> cuts \<open>s\<close> at the first occurrence of \<open>sep\<close>.
\<close>

fun split_first :: "string \<Rightarrow> string \<Rightarrow> (string \<times> string) option" where
  "split_first sep [] = (if sep = [] then Some ([], []) else None)"
| "split_first sep (c # cs) =
     (if take (length sep) (c # cs) = sep then Some ([], drop (length sep) (c # cs))
      else map_option (\<lambda>(a, b). (c # a, b)) (split_first sep cs))"

text \<open>
  Modelled from the spec: part of the URL parsing (missing from the sources).
  \<open>after_last d s\<close> is what follows the last \<open>d\<close> of \<open>s\<close>, and all of \<open>s\<close> when
  it has none: the authority without its user information.
\<close>

fun after_last :: "char \<Rightarrow> string \<Rightarrow> string" where
  "after_last d [] = []"
| "after_last d (c # cs) =
     (if d \<in> set cs then after_last d cs else if c = d then cs else c # cs)"

text \<open>
  Modelled from the spec: part of the URL parsing (missing from the sources). A port is
  written in decimal digits.
\<close>

definition is_digit :: "char \<Rightarrow> bool" where
  "is_digit c = (c \<in> set ''0123456789'')"

text \<open>
  Modelled from the spec: part of the URL parsing (missing from the sources). The value
  of a decimal digit.
\<close>

definition digit_value :: "char \<Rightarrow> nat" where
  "digit_value c = of_char c - of_char CHR ''0''"

text \<open>
  Modelled from the spec: part of the URL parsing (missing from the sources). The number
  a string of decimal digits writes.
\<close>

definition decimal :: "string \<Rightarrow> nat" where
  "decimal s = foldl (\<lambda>n c. 10 * n + digit_value c) 0 s"

text \<open>
  Modelled from the spec: what the URL parsing (missing from the sources) extracts: the
  host name, the port when the URL has one, and the path.
\<close>

record url_parts =
  url_hostname :: string
  url_port :: "nat option"
  url_pathname :: string

text \<open>
  Modelled from the spec: the URL parsing itself (missing from the sources), for the
  form above. A string with no \<^verbatim>\<open>://\<close>, with an empty scheme
  or host name, or with a port that is not a number is unparseable (\<open>None\<close>).
\<close>

definition parse_url :: "string \<Rightarrow> url_parts option" where
  "parse_url s =
     (case split_first ''://'' s of
        None \<Rightarrow> None
      | Some (scheme, rest) \<Rightarrow>
          (let authority = takeWhile (\<lambda>c. c \<notin> set ''/?#'') rest;
               tail = dropWhile (\<lambda>c. c \<notin> set ''/?#'') rest;
               pathname = takeWhile (\<lambda>c. c \<notin> set ''?#'') tail;
               hostport = after_last CHR ''@'' authority;
               hostname = takeWhile (\<lambda>c. c \<noteq> CHR '':'') hostport;
               portstr = drop 1 (dropWhile (\<lambda>c. c \<noteq> CHR '':'') hostport)
           in if scheme = [] \<or> hostname = [] \<or> \<not> list_all is_digit portstr then None
              else Some \<lparr> url_hostname = hostname,
                          url_port = (if portstr = [] then None else Some (decimal portstr)),
                          url_pathname = pathname \<rparr>))"

text \<open>
  Modelled from the spec: \<^verbatim>\<open>getConnectionAttributes\<close>, missing from the sources. In
  the specification's words: when a URL form is supplied, address, port and namespace
  are parsed from the URL (the namespace is the path after its leading slash; a URL
  without a port gets the driver's default port, as in the specification's postgres
  example); when discrete fields are supplied, each field falls back to its default
  (host \<^verbatim>\<open>localhost\<close>, the driver's default port) only when the field is absent. A
  malformed descriptor (unparseable URL, unknown driver kind) gives partial attributes:
  the fields that cannot be resolved are omitted.
\<close>

definition getConnectionAttributes :: "DataSourceOptions \<Rightarrow> Attributes" where
  "getConnectionAttributes options =
     (case url options of
        Some u \<Rightarrow>
          (case parse_url u of
             Some p \<Rightarrow>
               \<lparr> db_system = driver_system_identifier (type options),
                 db_namespace = Some (drop 1 (url_pathname p)),
                 server_address = Some (url_hostname p),
                 server_port = (case url_port p of
                                  Some n \<Rightarrow> Some n
                                | None \<Rightarrow> driver_default_port (type options)) \<rparr>
           | None \<Rightarrow>
               \<lparr> db_system = driver_system_identifier (type options),
                 db_namespace = None,
                 server_address = None,
                 server_port = None \<rparr>)
      | None \<Rightarrow>
          \<lparr> db_system = driver_system_identifier (type options),
            db_namespace = database options,
            server_address = Some (nullish (host options) ''localhost''),
            server_port = (case port options of
                             Some n \<Rightarrow> Some n
                           | None \<Rightarrow> driver_default_port (type options)) \<rparr>)"

section \<open>The default propagator\<close>

text \<open>
  C9. The propagator of the default configuration is a composite of exactly one
  propagator, the W3C trace-context propagator: no other propagation format is part of
  the default. This holds whatever the read of \<^verbatim>\<open>package.json\<close> gave.
\<close>

theorem defaultConfig_textMapPropagator:
  "textMapPropagator (defaultConfig version) =
     Some (CompositePropagator [W3CTraceContextPropagator])"
  by (simp add: defaultConfig_def)

section \<open>Connection attributes from discrete fields\<close>

text \<open>
  C5. For a mysql descriptor given as discrete fields with database test, the attributes
  are: system mysql, namespace test, the host when one is given and localhost when it is
  absent, the port when one is given and 3306 when it is absent. With neither host nor
  port this is localhost and 3306; a default is used only for a field that is absent.
\<close>

theorem getConnectionAttributes_mysql_fields:
  "getConnectionAttributes
     \<lparr> type = ''mysql'', url = None, host = h, port = p, database = Some ''test'' \<rparr>
   = \<lparr> db_system = Some ''mysql'', db_namespace = Some ''test'',
       server_address = Some (case h of None \<Rightarrow> ''localhost'' | Some a \<Rightarrow> a),
       server_port = Some (case p of None \<Rightarrow> 3306 | Some n \<Rightarrow> n) \<rparr>"
  by (simp add: getConnectionAttributes_def driver_system_identifier_def
      driver_default_port_def nullish_def split: option.splits)

end
